theory Spec2Isabelle
  imports Main "HOL-Library.AList"
begin

text \<open>
  A model of the bm2 process supervisor: the \<^verbatim>\<open>ProcessManager\<close> class (registry,
  log buffers, restart on exit) and the data handler of the daemon's socket
  server. One run of a callback is one step; the clock readings a callback takes
  are arguments of the step.
\<close>

section \<open>JavaScript primitives used by the supervisor\<close>

text \<open>
  \<^verbatim>\<open>Array.prototype.slice(start, end)\<close> on integer arguments: a negative index counts
  from the end of the array, and both indices are clamped into \<open>0..length\<close>.
\<close>

definition js_index :: "nat \<Rightarrow> int \<Rightarrow> int" where
  "js_index len i = (if i < 0 then max (int len + i) 0 else min i (int len))"

definition js_slice :: "'a list \<Rightarrow> int \<Rightarrow> int \<Rightarrow> 'a list" where
  "js_slice xs start fin =
     (let k = js_index (length xs) start; e = js_index (length xs) fin
      in take (nat (e - k)) (drop (nat k) xs))"

text \<open>\<^verbatim>\<open>slice(start)\<close>: the end defaults to the length.\<close>

definition js_slice_from :: "'a list \<Rightarrow> int \<Rightarrow> 'a list" where
  "js_slice_from xs start = js_slice xs start (int (length xs))"

text \<open>
  \<^verbatim>\<open>v || d\<close> on an optional number: \<^verbatim>\<open>undefined\<close>, \<^verbatim>\<open>null\<close> (both \<open>None\<close>) and \<open>0\<close>
  are falsy and give the default.
\<close>

definition js_or :: "int option \<Rightarrow> int \<Rightarrow> int" where
  "js_or v d = (case v of None \<Rightarrow> d | Some n \<Rightarrow> if n = 0 then d else n)"

text \<open>\<^verbatim>\<open>Number.prototype.toString()\<close> on a non-negative integer: its decimal digits.\<close>

definition digit_char :: "nat \<Rightarrow> char" where
  "digit_char d = ''0123456789'' ! d"

fun toString :: "nat \<Rightarrow> string" where
  "toString n =
     (if n < 10 then [digit_char n] else toString (n div 10) @ [digit_char (n mod 10)])"

declare toString.simps [simp del]

text \<open>Reading a decimal string back as a number (used to compare ids numerically).\<close>

definition digit_val :: "char \<Rightarrow> nat" where
  "digit_val c = of_char c - 48"

definition parseInt :: "string \<Rightarrow> nat" where
  "parseInt s = foldl (\<lambda>acc c. 10 * acc + digit_val c) 0 s"

section \<open>Data model (manager/types.ts, manager/process-manager.ts)\<close>

record LogEntry =
  timestamp :: nat
  message :: string
  isError :: bool

text \<open>
  \<open>None\<close> stands for an absent (or \<^verbatim>\<open>undefined\<close>/\<^verbatim>\<open>null\<close>) property. \<open>maxLogLines\<close> is
  modelled on integers.
\<close>

record ProcessOptions =
  restart :: "bool option"
  maxLogLines :: "int option"

type_synonym socket = nat

text \<open>
  The \<^verbatim>\<open>logs\<close> array object. Besides its elements it carries the own property
  \<^verbatim>\<open>push\<close> that the daemon's attach case installs: \<open>push_taps\<close> lists the sockets
  whose \<^verbatim>\<open>logStream\<close> wraps the array's push, outermost proxy first. A fresh
  array (a literal \<^verbatim>\<open>[]\<close> or the result of \<^verbatim>\<open>slice\<close>) has none.
\<close>

record LogArray =
  items :: "LogEntry list"
  push_taps :: "socket list"

text \<open>The part of \<^verbatim>\<open>Bun.Subprocess\<close> the manager touches.\<close>

record Subprocess =
  exitCode :: "int option"
  killed :: bool

text \<open>
  \<open>spawn_options\<close> is the \<^verbatim>\<open>options\<close> argument of \<^verbatim>\<open>start\<close> as captured by the
  \<^verbatim>\<open>process.exited.then\<close> callback; \<open>options\<close> is the defaulted copy stored in the
  record.
\<close>

record ProcessInfo =
  proc_id :: string
  script :: string
  process :: Subprocess
  startTime :: nat
  logs :: LogArray
  options :: ProcessOptions
  spawn_options :: ProcessOptions

record ProcessListInfo =
  l_id :: string
  l_script :: string
  uptime :: int
  status :: string

text \<open>
  \<open>config_processes\<close> is \<^verbatim>\<open>this.config.processes\<close>: every record ever created, in
  creation order; a record's position in it serves as the object's reference.
  \<open>processes\<close> is the \<^verbatim>\<open>Map<string, ProcessInfo>\<close>, insertion-ordered, holding
  references.
\<close>

record ProcessManager =
  processes :: "(string \<times> nat) list"
  config_processes :: "ProcessInfo list"

datatype error = NotFound string

section \<open>ProcessManager\<close>

definition constructor :: ProcessManager where
  "constructor = \<lparr>processes = [], config_processes = []\<rparr>"

text \<open>
  \<^verbatim>\<open>start(script, options)\<close>. \<open>now\<close> is the reading of \<^verbatim>\<open>Date.now()\<close>, \<open>born\<close> that of
  \<^verbatim>\<open>new Date()\<close>. \<^verbatim>\<open>Bun.spawn\<close> is taken to return a handle; the write of the
  config file has no effect on the state. \<open>new_processInfo\<close> is the object literal
  \<^verbatim>\<open>processInfo\<close>, whose id is \<^verbatim>\<open>Date.now().toString()\<close>.
\<close>

definition new_processInfo :: "string \<Rightarrow> ProcessOptions \<Rightarrow> nat \<Rightarrow> nat \<Rightarrow> ProcessInfo" where
  "new_processInfo scr opts now born =
     \<lparr>proc_id = toString now, script = scr,
      process = \<lparr>exitCode = None, killed = False\<rparr>,
      startTime = born,
      logs = \<lparr>items = [], push_taps = []\<rparr>,
      options = opts\<lparr>maxLogLines :=
        (case maxLogLines opts of None \<Rightarrow> Some 1000 | Some n \<Rightarrow> Some n)\<rparr>,
      spawn_options = opts\<rparr>"

definition start ::
  "ProcessManager \<Rightarrow> string \<Rightarrow> ProcessOptions \<Rightarrow> nat \<Rightarrow> nat \<Rightarrow> string \<times> ProcessManager" where
  "start m scr opts now born =
     (let processId = toString now;
          processInfo = new_processInfo scr opts now born
      in (processId,
          m\<lparr>processes := AList.update processId (length (config_processes m)) (processes m),
            config_processes := config_processes m @ [processInfo]\<rparr>))"

text \<open>
  \<^verbatim>\<open>logs.push(entry)\<close>: every installed proxy writes the entry to its socket, then
  the entry is appended. The sockets written to are returned, in order.
\<close>

definition push :: "LogArray \<Rightarrow> LogEntry \<Rightarrow> socket list \<times> LogArray" where
  "push arr entry = (push_taps arr, arr\<lparr>items := items arr @ [entry]\<rparr>)"

definition addLog ::
  "ProcessInfo \<Rightarrow> string \<Rightarrow> bool \<Rightarrow> nat \<Rightarrow> socket list \<times> ProcessInfo" where
  "addLog processInfo msg isErr ts =
     (let logEntry = \<lparr>timestamp = ts, message = msg, isError = isErr\<rparr>;
          (fired, arr) = push (logs processInfo) logEntry;
          lim = js_or (maxLogLines (options processInfo)) 1000
      in if int (length (items arr)) > lim
         then (fired, processInfo\<lparr>logs :=
                 \<lparr>items = js_slice_from (items arr) (- lim), push_taps = []\<rparr>\<rparr>)
         else (fired, processInfo\<lparr>logs := arr\<rparr>))"

text \<open>A sequence of appends to one record: (message, isError, timestamp) each.\<close>

fun addLogs :: "ProcessInfo \<Rightarrow> (string \<times> bool \<times> nat) list \<Rightarrow> ProcessInfo" where
  "addLogs p [] = p"
| "addLogs p ((msg, isErr, ts) # rest) = addLogs (snd (addLog p msg isErr ts)) rest"

definition entry_of :: "string \<times> bool \<times> nat \<Rightarrow> LogEntry" where
  "entry_of a = (case a of (msg, isErr, ts) \<Rightarrow>
     \<lparr>timestamp = ts, message = msg, isError = isErr\<rparr>)"

text \<open>The last \<open>k\<close> elements of a list (all of it when it is shorter).\<close>

definition lastn :: "nat \<Rightarrow> 'a list \<Rightarrow> 'a list" where
  "lastn k xs = drop (length xs - k) xs"

text \<open>\<^verbatim>\<open>list()\<close>, with \<open>now\<close> the reading of \<^verbatim>\<open>Date.now()\<close> during the call.\<close>

definition list :: "ProcessManager \<Rightarrow> nat \<Rightarrow> ProcessListInfo list" where
  "list m now =
     map (\<lambda>(k, h). let proc = config_processes m ! h in
            \<lparr>l_id = proc_id proc, l_script = script proc,
             uptime = int now - int (startTime proc),
             status = (if exitCode (process proc) = None then ''running'' else ''stopped'')\<rparr>)
         (processes m)"

text \<open>
  \<^verbatim>\<open>getLogs(processId, startIndex = 0, count = 200)\<close>: an omitted argument is
  \<open>None\<close> and takes its default.
\<close>

definition getLogs ::
  "ProcessManager \<Rightarrow> string \<Rightarrow> int option \<Rightarrow> int option \<Rightarrow> error + LogEntry list" where
  "getLogs m processId startIndex cnt =
     (let start_ix = (case startIndex of None \<Rightarrow> 0 | Some v \<Rightarrow> v);
          n = (case cnt of None \<Rightarrow> 200 | Some v \<Rightarrow> v)
      in case map_of (processes m) processId of
           None \<Rightarrow> Inl (NotFound processId)
         | Some h \<Rightarrow>
             (let ls = items (logs (config_processes m ! h));
                  endIndex = min (start_ix + n) (int (length ls))
              in Inr (js_slice ls start_ix endIndex)))"

definition stop :: "ProcessManager \<Rightarrow> string \<Rightarrow> ProcessManager" where
  "stop m processId =
     (case map_of (processes m) processId of
        None \<Rightarrow> m
      | Some h \<Rightarrow>
          (let processInfo = config_processes m ! h
           in m\<lparr>config_processes := (config_processes m)
                  [h := processInfo\<lparr>process := (process processInfo)\<lparr>killed := True\<rparr>\<rparr>],
                processes := AList.delete processId (processes m)\<rparr>))"

definition getProcess :: "ProcessManager \<Rightarrow> string \<Rightarrow> nat option" where
  "getProcess m processId = map_of (processes m) processId"

text \<open>
  The callbacks \<^verbatim>\<open>start\<close> registers on a child, for the record with reference \<open>h\<close>:
  the stdout/stderr \<^verbatim>\<open>write\<close> handlers call \<^verbatim>\<open>addLog\<close> on the captured record
  (whether or not it is still in the Map), and the \<^verbatim>\<open>exited\<close> callback restarts.
\<close>

definition handler_write ::
  "ProcessManager \<Rightarrow> nat \<Rightarrow> string \<Rightarrow> bool \<Rightarrow> nat \<Rightarrow> socket list \<times> ProcessManager" where
  "handler_write m h chunk isErr ts =
     (if h < length (config_processes m)
      then (let (fired, p') = addLog (config_processes m ! h) chunk isErr ts
            in (fired, m\<lparr>config_processes := (config_processes m)[h := p']\<rparr>))
      else ([], m))"

text \<open>
  How a child ends, and what the runtime then shows: a child that exits with a
  code has that code in \<^verbatim>\<open>Subprocess.exitCode\<close> and \<^verbatim>\<open>exited\<close> resolves to it; for a
  child ended by a signal \<^verbatim>\<open>exitCode\<close> stays \<^verbatim>\<open>null\<close> and \<^verbatim>\<open>exited\<close> resolves to 128
  plus the signal number. No code of the manager writes \<^verbatim>\<open>exitCode\<close>.
\<close>

datatype child_end = ExitCode int | Signal nat

definition exited_value :: "child_end \<Rightarrow> int" where
  "exited_value tm = (case tm of ExitCode c \<Rightarrow> c | Signal sg \<Rightarrow> 128 + int sg)"

definition exitCode_value :: "child_end \<Rightarrow> int option" where
  "exitCode_value tm = (case tm of ExitCode c \<Rightarrow> Some c | Signal sg \<Rightarrow> None)"

definition child_terminated :: "ProcessManager \<Rightarrow> nat \<Rightarrow> child_end \<Rightarrow> ProcessManager" where
  "child_terminated m h tm =
     m\<lparr>config_processes := (config_processes m)
         [h := (config_processes m ! h)
            \<lparr>process := (process (config_processes m ! h))\<lparr>exitCode := exitCode_value tm\<rparr>\<rparr>]\<rparr>"

text \<open>
  The \<^verbatim>\<open>process.exited.then\<close> callback of record \<open>h\<close>, called with the value \<open>code\<close>
  the promise resolved to.
\<close>

definition exited :: "ProcessManager \<Rightarrow> nat \<Rightarrow> int \<Rightarrow> nat \<Rightarrow> nat \<Rightarrow> ProcessManager" where
  "exited m h code now born =
     (if h < length (config_processes m)
      then (let processInfo = config_processes m ! h
            in if code \<noteq> 0 \<and> restart (spawn_options processInfo) = Some True
               then snd (start m (script processInfo) (spawn_options processInfo) now born)
               else m)
      else m)"

text \<open>The exit of child \<open>h\<close>: the runtime's bookkeeping, then the callback.\<close>

definition child_exit ::
  "ProcessManager \<Rightarrow> nat \<Rightarrow> child_end \<Rightarrow> nat \<Rightarrow> nat \<Rightarrow> ProcessManager" where
  "child_exit m h tm now born =
     exited (child_terminated m h tm) h (exited_value tm) now born"

section \<open>Daemon (daemon/daemon.ts)\<close>

text \<open>
  The value of \<^verbatim>\<open>JSON.parse(buffer)\<close> as the handler reads it: the call throws, or
  returns \<^verbatim>\<open>null\<close> (reading \<^verbatim>\<open>msg.type\<close> then throws), or returns a value whose
  properties are read as below, typed as the manager's signatures declare them.
  An absent \<^verbatim>\<open>options\<close> is \<open>None\<close>. A \<^verbatim>\<open>type\<close> that is absent or not a string is
  any string other than the five the switch knows; a \<^verbatim>\<open>processId\<close> that is absent
  or not a string is no key of the Map, like any unregistered id.
\<close>

record Message =
  msg_type :: string
  msg_script :: string
  msg_options :: "ProcessOptions option"
  msg_processId :: string
  msg_startIndex :: "int option"
  msg_count :: "int option"

datatype parsed = SyntaxError | JNull | JObject Message

text \<open>
  What is written to a socket: each frame stands for
  \<^verbatim>\<open>JSON.stringify(document) + "\n"\<close>.
\<close>

datatype frame =
    OkId string
  | Stopped
  | OkList "ProcessListInfo list"
  | OkLogs "LogEntry list"
  | Err string
  | LogLine LogEntry

record connection =
  buffer :: string
  written :: "frame list"
  ended :: bool

record Daemon =
  manager :: ProcessManager
  conns :: "connection list"

definition socket_write :: "Daemon \<Rightarrow> socket \<Rightarrow> frame \<Rightarrow> Daemon" where
  "socket_write d s f =
     d\<lparr>conns := (conns d)[s := (conns d ! s)\<lparr>written := written (conns d ! s) @ [f]\<rparr>]\<rparr>"

definition socket_end :: "Daemon \<Rightarrow> socket \<Rightarrow> frame \<Rightarrow> Daemon" where
  "socket_end d s f =
     d\<lparr>conns := (conns d)[s := (conns d ! s)
          \<lparr>written := written (conns d ! s) @ [f], ended := True\<rparr>]\<rparr>"

definition set_buffer :: "Daemon \<Rightarrow> socket \<Rightarrow> string \<Rightarrow> Daemon" where
  "set_buffer d s b = d\<lparr>conns := (conns d)[s := (conns d ! s)\<lparr>buffer := b\<rparr>]\<rparr>"

definition endsWith :: "string \<Rightarrow> string \<Rightarrow> bool" where
  "endsWith s t = (length t \<le> length s \<and> drop (length s - length t) s = t)"

definition newline :: string where
  "newline = [CHR 0x0A]"

text \<open>
  The attach case patches \<^verbatim>\<open>proc.logs.push\<close>: the new proxy wraps whatever push the
  array object has at that moment.
\<close>

definition install_push_proxy :: "ProcessManager \<Rightarrow> nat \<Rightarrow> socket \<Rightarrow> ProcessManager" where
  "install_push_proxy m h s =
     (let proc = config_processes m ! h
      in m\<lparr>config_processes := (config_processes m)
             [h := proc\<lparr>logs := (logs proc)\<lparr>push_taps := s # push_taps (logs proc)\<rparr>\<rparr>]\<rparr>)"

text \<open>
  The \<^verbatim>\<open>switch (msg.type)\<close> of the data handler. \<open>Inl\<close> is an exception thrown
  inside the \<^verbatim>\<open>try\<close> block (only \<^verbatim>\<open>getLogs\<close> throws, before any effect).
\<close>

definition dispatch :: "Daemon \<Rightarrow> socket \<Rightarrow> Message \<Rightarrow> nat \<Rightarrow> nat \<Rightarrow> error + Daemon" where
  "dispatch d s msg now born =
     (if msg_type msg = ''start'' then
        (let (i, m') = start (manager d) (msg_script msg)
                         (case msg_options msg of
                            None \<Rightarrow> \<lparr>restart = None, maxLogLines = None\<rparr>
                          | Some os \<Rightarrow> os) now born
         in Inr (socket_write (d\<lparr>manager := m'\<rparr>) s (OkId i)))
      else if msg_type msg = ''stop'' then
        Inr (socket_write (d\<lparr>manager := stop (manager d) (msg_processId msg)\<rparr>) s Stopped)
      else if msg_type msg = ''list'' then
        Inr (socket_write d s (OkList (list (manager d) now)))
      else if msg_type msg = ''logs'' then
        (case getLogs (manager d) (msg_processId msg) None None of
           Inl e \<Rightarrow> Inl e
         | Inr ls \<Rightarrow> Inr (socket_write d s (OkLogs ls)))
      else if msg_type msg = ''attach'' then
        (case getProcess (manager d) (msg_processId msg) of
           None \<Rightarrow> Inr (socket_end d s (Err ''Not found''))
         | Some h \<Rightarrow>
             (let d1 = foldl (\<lambda>acc log. socket_write acc s (LogLine log)) d
                         (items (logs (config_processes (manager d) ! h)))
              in Inr (d1\<lparr>manager := install_push_proxy (manager d1) h s\<rparr>)))
      else Inr (socket_write d s (Err ''Invalid message type'')))"

text \<open>The \<^verbatim>\<open>catch\<close> block.\<close>

definition fault :: "Daemon \<Rightarrow> socket \<Rightarrow> Daemon" where
  "fault d s = set_buffer (socket_write d s (Err ''Invalid message format'')) s []"

text \<open>The \<^verbatim>\<open>try\<close>/\<^verbatim>\<open>catch\<close> around parse and dispatch, given what the parse returned.\<close>

definition handle_parsed :: "Daemon \<Rightarrow> socket \<Rightarrow> parsed \<Rightarrow> nat \<Rightarrow> nat \<Rightarrow> Daemon" where
  "handle_parsed d s p now born =
     (case p of
        SyntaxError \<Rightarrow> fault d s
      | JNull \<Rightarrow> fault (set_buffer d s []) s
      | JObject msg \<Rightarrow>
          (case dispatch (set_buffer d s []) s msg now born of
             Inl e \<Rightarrow> fault (set_buffer d s []) s
           | Inr d' \<Rightarrow> d'))"

text \<open>
  The \<^verbatim>\<open>socket.on("data")\<close> handler. \<open>JSON_parse\<close>, the runtime's parser, is a
  parameter.
\<close>

definition on_data ::
  "(string \<Rightarrow> parsed) \<Rightarrow> Daemon \<Rightarrow> socket \<Rightarrow> string \<Rightarrow> nat \<Rightarrow> nat \<Rightarrow> Daemon" where
  "on_data JSON_parse d s chunk now born =
     (let buf = buffer (conns d ! s) @ chunk;
          d1 = set_buffer d s buf
      in if endsWith buf newline then handle_parsed d1 s (JSON_parse buf) now born else d1)"

text \<open>
  Events of the daemon's single control flow. \<open>Request s p now born\<close> is a data event
  on socket \<open>s\<close> that completes a newline-terminated buffer on which \<^verbatim>\<open>JSON.parse\<close>
  gives \<open>p\<close>; \<open>Chunk h text isErr ts\<close> is output of child \<open>h\<close> on stdout or stderr;
  \<open>Exit h tm now born\<close> is its end. Clock readings come with the event. No
  data is delivered on a connection the daemon has ended.
\<close>

datatype event =
    Connection
  | Request socket parsed nat nat
  | Chunk nat string bool nat
  | Exit nat child_end nat nat

fun step :: "Daemon \<Rightarrow> event \<Rightarrow> Daemon" where
  "step d Connection = d\<lparr>conns := conns d @ [\<lparr>buffer = [], written = [], ended = False\<rparr>]\<rparr>"
| "step d (Request s p now born) =
     (if s < length (conns d) \<and> \<not> ended (conns d ! s) then handle_parsed d s p now born else d)"
| "step d (Chunk h chunk isErr ts) =
     (let (fired, m') = handler_write (manager d) h chunk isErr ts
      in foldl (\<lambda>acc s. socket_write acc s
                  (LogLine \<lparr>timestamp = ts, message = chunk, isError = isErr\<rparr>))
           (d\<lparr>manager := m'\<rparr>) fired)"
| "step d (Exit h tm now born) = d\<lparr>manager := child_exit (manager d) h tm now born\<rparr>"

definition run :: "Daemon \<Rightarrow> event list \<Rightarrow> Daemon" where
  "run d evs = foldl step d evs"

definition daemon0 :: Daemon where
  "daemon0 = \<lparr>manager = constructor, conns = []\<rparr>"

text \<open>
  References held by the Map point at existing records, each filed under its own
  id, and the Map's keys are distinct.
\<close>

definition wf_manager :: "ProcessManager \<Rightarrow> bool" where
  "wf_manager m = (distinct (map fst (processes m)) \<and>
     (\<forall>(k, h) \<in> set (processes m).
        h < length (config_processes m) \<and> proc_id (config_processes m ! h) = k))"

section \<open>Decimal ids\<close>

lemma digit_val_digit_char: "d < 10 \<Longrightarrow> digit_val (digit_char d) = d"
proof -
  assume "d < 10"
  then have "d = 0 \<or> d = 1 \<or> d = 2 \<or> d = 3 \<or> d = 4 \<or> d = 5 \<or> d = 6 \<or> d = 7
      \<or> d = 8 \<or> d = 9"
    by presburger
  then show ?thesis
    by (elim disjE) (simp_all add: digit_val_def digit_char_def)
qed

lemma parseInt_snoc: "parseInt (s @ [c]) = 10 * parseInt s + digit_val c"
  by (simp add: parseInt_def)

lemma parseInt_toString: "parseInt (toString n) = n"
proof (induction n rule: toString.induct)
  case (1 n)
  show ?case
  proof (cases "n < 10")
    case True
    then show ?thesis
      using parseInt_snoc [of "[]" "digit_char n"]
      by (simp add: toString.simps [of n] digit_val_digit_char parseInt_def)
  next
    case False
    then have "parseInt (toString (n div 10)) = n div 10" using 1 by simp
    with False show ?thesis
      by (simp add: toString.simps [of n] parseInt_snoc digit_val_digit_char)
  qed
qed

lemma toString_inj: "toString a = toString b \<longleftrightarrow> a = b"
  by (metis parseInt_toString)

section \<open>The log buffer\<close>

lemma js_slice_from_neg: "0 < k \<Longrightarrow> js_slice_from xs (- k) = lastn (nat k) xs"
  unfolding js_slice_from_def js_slice_def js_index_def lastn_def Let_def
  by (cases "int (length xs) - k \<ge> 0") (simp_all add: nat_diff_distrib')

lemma lastn_all: "length xs \<le> k \<Longrightarrow> lastn k xs = xs"
  by (simp add: lastn_def)

lemma length_lastn: "length (lastn k xs) = min k (length xs)"
  by (simp add: lastn_def)

lemma lastn_lastn_append: "lastn k (lastn k ys @ zs) = lastn k (ys @ zs)"
proof (cases "k \<le> length ys")
  case True
  then have "length ys + length zs - (length ys - k + k) + (length ys - k) =
             length ys + length zs - k" by simp
  with True show ?thesis by (simp add: lastn_def)
next
  case False
  then show ?thesis by (simp add: lastn_def)
qed

lemma addLog_items:
  assumes "1 \<le> js_or (maxLogLines (options p)) 1000"
  shows "items (logs (snd (addLog p msg isErr ts))) =
         lastn (nat (js_or (maxLogLines (options p)) 1000))
           (items (logs p) @ [\<lparr>timestamp = ts, message = msg, isError = isErr\<rparr>])"
proof (cases "int (length (items (logs p) @ [\<lparr>timestamp = ts, message = msg, isError = isErr\<rparr>]))
               > js_or (maxLogLines (options p)) 1000")
  case True
  then show ?thesis using assms
    by (simp add: addLog_def push_def Let_def js_slice_from_neg)
next
  case False
  then show ?thesis using assms
    by (simp add: addLog_def push_def Let_def lastn_all)
qed

lemma addLog_options: "options (snd (addLog p msg isErr ts)) = options p"
  by (simp add: addLog_def push_def Let_def)

lemma addLog_proc_id: "proc_id (snd (addLog p msg isErr ts)) = proc_id p"
  by (simp add: addLog_def push_def Let_def)

lemma addLogs_items:
  assumes "1 \<le> js_or (maxLogLines (options p)) 1000"
    and "length (items (logs p)) \<le> nat (js_or (maxLogLines (options p)) 1000)"
  shows "items (logs (addLogs p es)) =
         lastn (nat (js_or (maxLogLines (options p)) 1000)) (items (logs p) @ map entry_of es)"
  using assms
proof (induction p es rule: addLogs.induct)
  case (1 p)
  then show ?case by (simp add: lastn_all)
next
  case (2 p msg isErr ts rest)
  let ?k = "nat (js_or (maxLogLines (options p)) 1000)"
  let ?p' = "snd (addLog p msg isErr ts)"
  have it: "items (logs ?p') = lastn ?k (items (logs p) @ [entry_of (msg, isErr, ts)])"
    using addLog_items [OF "2.prems"(1)] by (simp add: entry_of_def)
  have "items (logs (addLogs ?p' rest)) = lastn ?k (items (logs ?p') @ map entry_of rest)"
    using "2.IH" "2.prems"(1) by (simp add: addLog_options it length_lastn)
  then show ?case
    by (simp add: it lastn_lastn_append)
qed

lemma lastn_min_length: "lastn (min (length xs) k) xs = lastn k xs"
  by (simp add: lastn_def min_def)

text \<open>
  C1, as amended. With the effective capacity \<open>cap = maxLogLines || 1000\<close> (so an
  absent or zero \<open>maxLogLines\<close> means 1000) at least 1, any sequence of appends to
  a record with an empty buffer leaves exactly the most recent
  \<open>min (total appended) cap\<close> entries, in append order; in particular more than
  \<open>cap\<close> appends leave exactly \<open>cap\<close> entries.
\<close>

theorem addLog_retains_most_recent:
  assumes "items (logs p) = []"
    and "1 \<le> js_or (maxLogLines (options p)) 1000"
  shows "items (logs (addLogs p es)) =
           lastn (min (length es) (nat (js_or (maxLogLines (options p)) 1000)))
             (map entry_of es)
         \<and> (nat (js_or (maxLogLines (options p)) 1000) < length es \<longrightarrow>
              length (items (logs (addLogs p es))) = nat (js_or (maxLogLines (options p)) 1000))"
proof -
  let ?k = "nat (js_or (maxLogLines (options p)) 1000)"
  have eq: "items (logs (addLogs p es)) = lastn ?k (map entry_of es)"
    using addLogs_items [OF assms(2), of es] assms(1) by simp
  have "lastn (min (length (map entry_of es)) ?k) (map entry_of es) = lastn ?k (map entry_of es)"
    by (rule lastn_min_length)
  then have "items (logs (addLogs p es)) = lastn (min (length es) ?k) (map entry_of es)"
    using eq by simp
  moreover have "?k < length es \<longrightarrow> length (items (logs (addLogs p es))) = ?k"
    using eq by (simp add: length_lastn)
  ultimately show ?thesis by blast
qed

theorem addLog_retains_most_recent_witness:
  "items (logs (addLogs (new_processInfo ''a.js'' \<lparr>restart = None, maxLogLines = Some 2\<rparr> 5 5)
      [(''a'', False, 6), (''b'', True, 7), (''c'', False, 8)])) =
   [\<lparr>timestamp = 7, message = ''b'', isError = True\<rparr>,
    \<lparr>timestamp = 8, message = ''c'', isError = False\<rparr>]"
  using addLog_retains_most_recent
    [of "new_processInfo ''a.js'' \<lparr>restart = None, maxLogLines = Some 2\<rparr> 5 5"
        "[(''a'', False, 6), (''b'', True, 7), (''c'', False, 8)]"]
  by (simp add: new_processInfo_def js_or_def lastn_def entry_of_def)

text \<open>
  C1 as stated fails for a configured capacity of 0: one append leaves one entry,
  not \<open>min 1 0 = 0\<close> entries.
\<close>

theorem addLog_capacity_zero_counterexample:
  "items (logs (addLogs (new_processInfo ''a.js'' \<lparr>restart = None, maxLogLines = Some 0\<rparr> 5 5)
      [(''x'', False, 6)])) \<noteq>
   lastn (min (length [(''x'', False, 6 :: nat)]) (nat 0)) (map entry_of [(''x'', False, 6)])"
  by (simp add: new_processInfo_def addLog_def push_def js_or_def lastn_def entry_of_def)

text \<open>
  C10. A process started with \<open>maxLogLines = 0\<close> has eviction threshold 1000: its
  buffer after any appends holds the most recent \<open>min (total) 1000\<close> entries.
\<close>

theorem maxLogLines_zero_falls_back:
  "js_or (maxLogLines (options (new_processInfo scr (opts\<lparr>maxLogLines := Some 0\<rparr>) now born)))
     1000 = 1000
   \<and> items (logs (addLogs (new_processInfo scr (opts\<lparr>maxLogLines := Some 0\<rparr>) now born) es)) =
       lastn (min (length es) 1000) (map entry_of es)"
proof -
  let ?p = "new_processInfo scr (opts\<lparr>maxLogLines := Some 0\<rparr>) now born"
  have k: "js_or (maxLogLines (options ?p)) 1000 = 1000"
    by (simp add: new_processInfo_def js_or_def)
  have "items (logs (addLogs ?p es)) = lastn (nat 1000) (items (logs ?p) @ map entry_of es)"
    using addLogs_items [of ?p es] k by (simp add: new_processInfo_def)
  then have "items (logs (addLogs ?p es)) = lastn 1000 (map entry_of es)"
    by (simp add: new_processInfo_def)
  moreover have "lastn (min (length (map entry_of es)) 1000) (map entry_of es) =
      lastn 1000 (map entry_of es)"
    by (rule lastn_min_length)
  ultimately show ?thesis using k by simp
qed

section \<open>Reading a window of the buffer\<close>

lemma js_index_nonneg: "0 \<le> i \<Longrightarrow> js_index n i = min i (int n)"
  by (simp add: js_index_def)

lemma take_min_length: "take (min a (length ys)) ys = take a ys"
  by (simp add: min_def)

lemma js_slice_window:
  assumes "0 \<le> s" and "0 \<le> c"
  shows "js_slice xs s (min (s + c) (int (length xs))) = take (nat c) (drop (nat s) xs)"
proof (cases "s < int (length xs)")
  case True
  have k: "js_index (length xs) s = s"
    using True assms(1) by (simp add: js_index_def)
  have "0 \<le> min (s + c) (int (length xs))"
    using assms by simp
  then have e: "js_index (length xs) (min (s + c) (int (length xs))) = min (s + c) (int (length xs))"
    by (simp only: js_index_nonneg min.assoc min.idem)
  have n: "nat (min (s + c) (int (length xs)) - s) = min (nat c) (length (drop (nat s) xs))"
    using True assms by simp
  have "js_slice xs s (min (s + c) (int (length xs))) =
        take (min (nat c) (length (drop (nat s) xs))) (drop (nat s) xs)"
    unfolding js_slice_def Let_def k e n ..
  then show ?thesis
    by (simp only: take_min_length)
next
  case False
  have k: "js_index (length xs) s = int (length xs)"
    using False assms(1) by (simp add: js_index_def)
  show ?thesis using False assms
    by (simp add: js_slice_def Let_def k)
qed

text \<open>
  C5, as amended. \<open>getLogs\<close> fails, with NotFound, exactly when the id is not a key of the
  registry, whatever the other arguments. For a registered id, a start index
  and a count that are not negative select the \<open>count\<close> entries of the retained
  window from position \<open>start\<close> on, or as many as there are: nothing beyond the
  end, and the empty list when \<open>start\<close> is at or past the end.
\<close>

theorem getLogs_window:
  "isl (getLogs m i a b) = (map_of (processes m) i = None)
   \<and> (map_of (processes m) i = None \<longrightarrow> getLogs m i a b = Inl (NotFound i))
   \<and> (\<forall>h. map_of (processes m) i = Some h \<and> 0 \<le> s \<and> 0 \<le> c \<longrightarrow>
          getLogs m i (Some s) (Some c) =
            Inr (take (nat c) (drop (nat s) (items (logs (config_processes m ! h))))))"
proof (intro conjI allI impI)
  show "isl (getLogs m i a b) = (map_of (processes m) i = None)"
    by (simp add: getLogs_def Let_def split: option.splits)
next
  assume "map_of (processes m) i = None"
  then show "getLogs m i a b = Inl (NotFound i)"
    by (simp add: getLogs_def Let_def)
next
  fix h
  assume a: "map_of (processes m) i = Some h \<and> 0 \<le> s \<and> 0 \<le> c"
  then have "js_slice (items (logs (config_processes m ! h))) s
               (min (s + c) (int (length (items (logs (config_processes m ! h)))))) =
             take (nat c) (drop (nat s) (items (logs (config_processes m ! h))))"
    by (intro js_slice_window) simp_all
  with a show "getLogs m i (Some s) (Some c) =
            Inr (take (nat c) (drop (nat s) (items (logs (config_processes m ! h)))))"
    by (simp add: getLogs_def Let_def)
qed

theorem getLogs_window_witness:
  "getLogs (snd (handler_write (snd (handler_write (snd (handler_write
       (snd (start constructor ''a.js'' \<lparr>restart = None, maxLogLines = None\<rparr> 5 5))
       0 ''a'' False 6)) 0 ''b'' False 7)) 0 ''c'' True 8)) ''5'' (Some 1) (Some 1) =
     Inr [\<lparr>timestamp = 7, message = ''b'', isError = False\<rparr>]
   \<and> getLogs (snd (handler_write (snd (handler_write (snd (handler_write
       (snd (start constructor ''a.js'' \<lparr>restart = None, maxLogLines = None\<rparr> 5 5))
       0 ''a'' False 6)) 0 ''b'' False 7)) 0 ''c'' True 8)) ''5'' (Some 3) (Some 2) = Inr []
   \<and> getLogs (snd (handler_write (snd (handler_write (snd (handler_write
       (snd (start constructor ''a.js'' \<lparr>restart = None, maxLogLines = None\<rparr> 5 5))
       0 ''a'' False 6)) 0 ''b'' False 7)) 0 ''c'' True 8)) ''6'' (Some 0) (Some 2) =
     Inl (NotFound ''6'')"
  using getLogs_window [where s = 1 and c = 1 and i = "''5''" and a = None and b = None
      and m = "snd (handler_write (snd (handler_write (snd (handler_write
       (snd (start constructor ''a.js'' \<lparr>restart = None, maxLogLines = None\<rparr> 5 5))
       0 ''a'' False 6)) 0 ''b'' False 7)) 0 ''c'' True 8)"]
    getLogs_window [where s = 3 and c = 2 and i = "''5''" and a = None and b = None
      and m = "snd (handler_write (snd (handler_write (snd (handler_write
       (snd (start constructor ''a.js'' \<lparr>restart = None, maxLogLines = None\<rparr> 5 5))
       0 ''a'' False 6)) 0 ''b'' False 7)) 0 ''c'' True 8)"]
    getLogs_window [where i = "''6''" and a = "Some 0" and b = "Some 2"
      and m = "snd (handler_write (snd (handler_write (snd (handler_write
       (snd (start constructor ''a.js'' \<lparr>restart = None, maxLogLines = None\<rparr> 5 5))
       0 ''a'' False 6)) 0 ''b'' False 7)) 0 ''c'' True 8)"]
  by (simp add: start_def new_processInfo_def constructor_def toString.simps digit_char_def
      handler_write_def addLog_def push_def js_or_def Let_def)

text \<open>
  C5 as stated fails for a negative start: on a window of three entries,
  \<open>getLogs\<close> with start \<open>-2\<close> and count \<open>5\<close> returns the last two entries, not the
  empty list, though \<open>-2\<close> is no position of the window.
\<close>

theorem getLogs_negative_start_counterexample:
  "getLogs (snd (handler_write (snd (handler_write (snd (handler_write
       (snd (start constructor ''a.js'' \<lparr>restart = None, maxLogLines = None\<rparr> 5 5))
       0 ''a'' False 6)) 0 ''b'' False 7)) 0 ''c'' True 8)) ''5'' (Some (- 2)) (Some 5) =
     Inr [\<lparr>timestamp = 7, message = ''b'', isError = False\<rparr>,
          \<lparr>timestamp = 8, message = ''c'', isError = True\<rparr>]
   \<and> getLogs (snd (handler_write (snd (handler_write (snd (handler_write
       (snd (start constructor ''a.js'' \<lparr>restart = None, maxLogLines = None\<rparr> 5 5))
       0 ''a'' False 6)) 0 ''b'' False 7)) 0 ''c'' True 8)) ''5'' (Some (- 2)) (Some 5) \<noteq> Inr []"
  by (simp add: getLogs_def js_slice_def js_index_def start_def new_processInfo_def
      constructor_def toString.simps digit_char_def handler_write_def addLog_def push_def
      js_or_def Let_def)

section \<open>Ids and restarts\<close>

lemma start_fst: "fst (start m scr opts now born) = toString now"
  by (simp add: start_def Let_def)

lemma start_snd:
  "snd (start m scr opts now born) =
     m\<lparr>processes := AList.update (toString now) (length (config_processes m)) (processes m),
       config_processes := config_processes m @ [new_processInfo scr opts now born]\<rparr>"
  by (simp add: start_def Let_def)

lemma update_fresh: "k \<notin> fst ` set al \<Longrightarrow> AList.update k v al = al @ [(k, v)]"
  by (induction al) auto

text \<open>
  C3, as amended. The id that \<open>start\<close> returns is the decimal string of the clock
  reading at the call, whatever the state: two calls return distinct ids exactly
  when their readings differ, and the ids, read as numbers, are ordered as the
  readings are.
\<close>

theorem start_id_is_clock_reading:
  "fst (start m scr opts now born) = toString now
   \<and> parseInt (fst (start m scr opts now born)) = now
   \<and> ((fst (start m scr opts now born) = fst (start m' scr' opts' now' born')) = (now = now'))
   \<and> ((parseInt (fst (start m scr opts now born))
         \<le> parseInt (fst (start m' scr' opts' now' born'))) = (now \<le> now'))"
  by (simp add: start_fst parseInt_toString toString_inj)

text \<open>
  C3 as stated fails: two calls of \<open>start\<close> in the same millisecond return the
  same id.
\<close>

theorem start_same_millisecond_counterexample:
  "\<not> (fst (start constructor ''a.js'' \<lparr>restart = None, maxLogLines = None\<rparr> 5 5) \<noteq>
       fst (start (snd (start constructor ''a.js'' \<lparr>restart = None, maxLogLines = None\<rparr> 5 5))
              ''b.js'' \<lparr>restart = None, maxLogLines = None\<rparr> 5 6))"
  by (simp add: start_fst)

lemma child_terminated_fields:
  "processes (child_terminated m h tm) = processes m"
  "length (config_processes (child_terminated m h tm)) = length (config_processes m)"
  "h < length (config_processes m) \<Longrightarrow>
     script (config_processes (child_terminated m h tm) ! h) = script (config_processes m ! h)"
  "h < length (config_processes m) \<Longrightarrow>
     spawn_options (config_processes (child_terminated m h tm) ! h) =
       spawn_options (config_processes m ! h)"
  by (simp_all add: child_terminated_def)

text \<open>
  C4, as amended. When child \<open>h\<close> ends, \<^verbatim>\<open>exited\<close> resolving to a non-zero value, and
  restart was requested, \<open>start\<close> is called again with the same script and
  options; if its id (the clock reading) is not yet a key of the registry, the
  registry is the old one, unchanged, with the new entry appended. Otherwise
  (restart absent or false, or the value zero) nothing but the runtime's
  bookkeeping happens: the registry is the same and no record is created.
\<close>

theorem exited_restart_policy:
  assumes "h < length (config_processes m)"
  shows "(exited_value tm \<noteq> 0 \<and> restart (spawn_options (config_processes m ! h)) = Some True \<longrightarrow>
            child_exit m h tm now born =
              snd (start (child_terminated m h tm) (script (config_processes m ! h))
                     (spawn_options (config_processes m ! h)) now born)
            \<and> (toString now \<notin> fst ` set (processes m) \<longrightarrow>
                 processes (child_exit m h tm now born) =
                   processes m @ [(toString now, length (config_processes m))]))
       \<and> (\<not> (exited_value tm \<noteq> 0 \<and> restart (spawn_options (config_processes m ! h)) = Some True) \<longrightarrow>
            child_exit m h tm now born = child_terminated m h tm
            \<and> processes (child_exit m h tm now born) = processes m
            \<and> length (config_processes (child_exit m h tm now born)) = length (config_processes m))"
  using assms
  by (auto simp: child_exit_def exited_def Let_def child_terminated_fields start_snd update_fresh)

theorem exited_restart_policy_witness:
  "processes (child_exit (snd (start constructor ''a.js''
       \<lparr>restart = Some True, maxLogLines = None\<rparr> 5 5)) 0 (ExitCode 1) 9 9) =
     [(''5'', 0), (''9'', 1)]
   \<and> processes (child_exit (snd (start constructor ''a.js''
       \<lparr>restart = Some True, maxLogLines = None\<rparr> 5 5)) 0 (Signal 15) 9 9) =
     [(''5'', 0), (''9'', 1)]
   \<and> processes (child_exit (snd (start constructor ''a.js''
       \<lparr>restart = Some True, maxLogLines = None\<rparr> 5 5)) 0 (ExitCode 0) 9 9) = [(''5'', 0)]
   \<and> processes (child_exit (snd (start constructor ''a.js''
       \<lparr>restart = None, maxLogLines = None\<rparr> 5 5)) 0 (ExitCode 1) 9 9) = [(''5'', 0)]"
  using exited_restart_policy [where h = 0 and tm = "ExitCode 1" and now = 9 and born = 9
      and m = "snd (start constructor ''a.js'' \<lparr>restart = Some True, maxLogLines = None\<rparr> 5 5)"]
    exited_restart_policy [where h = 0 and tm = "Signal 15" and now = 9 and born = 9
      and m = "snd (start constructor ''a.js'' \<lparr>restart = Some True, maxLogLines = None\<rparr> 5 5)"]
    exited_restart_policy [where h = 0 and tm = "ExitCode 0" and now = 9 and born = 9
      and m = "snd (start constructor ''a.js'' \<lparr>restart = Some True, maxLogLines = None\<rparr> 5 5)"]
    exited_restart_policy [where h = 0 and tm = "ExitCode 1" and now = 9 and born = 9
      and m = "snd (start constructor ''a.js'' \<lparr>restart = None, maxLogLines = None\<rparr> 5 5)"]
  by (simp add: start_snd child_terminated_def exited_value_def exitCode_value_def
      new_processInfo_def constructor_def toString.simps digit_char_def)

text \<open>
  C4 as stated fails: a restart in the millisecond in which another process was
  started mints that process's id; no new id appears, and the other record is no
  longer the one registered under it.
\<close>

theorem exited_restart_collision_counterexample:
  "map fst (processes (child_exit (snd (start (snd (start constructor ''a.js''
       \<lparr>restart = Some True, maxLogLines = None\<rparr> 5 5))
       ''b.js'' \<lparr>restart = None, maxLogLines = None\<rparr> 9 9)) 0 (ExitCode 1) 9 9)) =
   map fst (processes (snd (start (snd (start constructor ''a.js''
       \<lparr>restart = Some True, maxLogLines = None\<rparr> 5 5))
       ''b.js'' \<lparr>restart = None, maxLogLines = None\<rparr> 9 9)))
   \<and> map_of (processes (snd (start (snd (start constructor ''a.js''
       \<lparr>restart = Some True, maxLogLines = None\<rparr> 5 5))
       ''b.js'' \<lparr>restart = None, maxLogLines = None\<rparr> 9 9))) ''9'' = Some 1
   \<and> map_of (processes (child_exit (snd (start (snd (start constructor ''a.js''
       \<lparr>restart = Some True, maxLogLines = None\<rparr> 5 5))
       ''b.js'' \<lparr>restart = None, maxLogLines = None\<rparr> 9 9)) 0 (ExitCode 1) 9 9)) ''9'' = Some 2"
  by (simp add: child_exit_def exited_def child_terminated_def exited_value_def exitCode_value_def
      start_def new_processInfo_def constructor_def toString.simps digit_char_def Let_def)

section \<open>Well-formed registries\<close>

lemma wf_constructor: "wf_manager constructor"
  by (simp add: wf_manager_def constructor_def)

lemma update_set_subset:
  "set (AList.update k v al) \<subseteq> insert (k, v) (set al)"
  by (induction al) auto

lemma wf_heap_update:
  assumes "wf_manager m" and "proc_id p' = proc_id (config_processes m ! h)"
  shows "wf_manager (m\<lparr>config_processes := (config_processes m)[h := p']\<rparr>)"
proof (cases "h < length (config_processes m)")
  case True
  have "proc_id ((config_processes m)[h := p'] ! j) = proc_id (config_processes m ! j)" for j
    using True assms(2) by (cases "j = h") simp_all
  with assms(1) show ?thesis
    unfolding wf_manager_def by auto
next
  case False
  then have "(config_processes m)[h := p'] = config_processes m"
    by (intro list_update_beyond) simp
  then show ?thesis using assms(1) by (simp add: wf_manager_def)
qed

lemma wf_processes_delete:
  assumes "wf_manager m"
  shows "wf_manager (m\<lparr>processes := AList.delete i (processes m)\<rparr>)"
proof -
  have "set (AList.delete i (processes m)) \<subseteq> set (processes m)"
    by (auto simp: AList.delete_eq)
  with assms show ?thesis
    unfolding wf_manager_def by (auto simp: AList.distinct_delete)
qed

lemma wf_start: "wf_manager m \<Longrightarrow> wf_manager (snd (start m scr opts now born))"
  unfolding wf_manager_def start_def Let_def
  apply (simp add: AList.distinct_update)
  apply clarify
  subgoal for k h
    using update_set_subset [of "toString now" "length (config_processes m)" "processes m"]
    by (auto simp: nth_append new_processInfo_def)
  done

lemma wf_stop: "wf_manager m \<Longrightarrow> wf_manager (stop m i)"
proof (cases "map_of (processes m) i")
  case None
  assume "wf_manager m"
  with None show ?thesis by (simp add: stop_def)
next
  case (Some h)
  assume w: "wf_manager m"
  let ?p = "config_processes m ! h"
  let ?m1 = "m\<lparr>config_processes := (config_processes m)
                 [h := ?p\<lparr>process := (process ?p)\<lparr>killed := True\<rparr>\<rparr>]\<rparr>"
  have "wf_manager ?m1" by (rule wf_heap_update [OF w]) simp
  then have "wf_manager (?m1\<lparr>processes := AList.delete i (processes ?m1)\<rparr>)"
    by (rule wf_processes_delete)
  with Some show ?thesis by (simp add: stop_def Let_def)
qed

lemma wf_handler_write:
  "wf_manager m \<Longrightarrow> wf_manager (snd (handler_write m h chunk isErr ts))"
  unfolding handler_write_def
  by (cases "addLog (config_processes m ! h) chunk isErr ts")
     (use addLog_proc_id [of "config_processes m ! h" chunk isErr ts] in
       \<open>auto intro!: wf_heap_update\<close>)

lemma wf_exited: "wf_manager m \<Longrightarrow> wf_manager (exited m h code now born)"
  unfolding exited_def Let_def
  by (auto intro!: wf_start)

lemma wf_child_terminated: "wf_manager m \<Longrightarrow> wf_manager (child_terminated m h tm)"
  unfolding child_terminated_def
  by (auto intro!: wf_heap_update)

lemma wf_child_exit: "wf_manager m \<Longrightarrow> wf_manager (child_exit m h tm now born)"
  unfolding child_exit_def
  by (intro wf_exited wf_child_terminated)

lemma wf_install: "wf_manager m \<Longrightarrow> wf_manager (install_push_proxy m h s)"
  unfolding install_push_proxy_def Let_def
  by (auto intro!: wf_heap_update)

section \<open>The registry stays well formed along every run of the daemon\<close>

lemma manager_socket_write [simp]: "manager (socket_write d s f) = manager d"
  by (simp add: socket_write_def)

lemma manager_socket_end [simp]: "manager (socket_end d s f) = manager d"
  by (simp add: socket_end_def)

lemma manager_set_buffer [simp]: "manager (set_buffer d s b) = manager d"
  by (simp add: set_buffer_def)

lemma manager_fault [simp]: "manager (fault d s) = manager d"
  by (simp add: fault_def)

lemma manager_foldl_write:
  "manager (foldl (\<lambda>acc x. socket_write acc (sock x) (fr x)) d xs) = manager d"
  by (induction xs arbitrary: d) simp_all

lemma wf_dispatch:
  assumes "wf_manager (manager d)" and "dispatch d s msg now born = Inr d'"
  shows "wf_manager (manager d')"
proof -
  consider (start) "msg_type msg = ''start''" | (stop) "msg_type msg = ''stop''"
    | (list) "msg_type msg = ''list''" | (logs) "msg_type msg = ''logs''"
    | (attach) "msg_type msg = ''attach''"
    | (other) "msg_type msg \<notin> {''start'', ''stop'', ''list'', ''logs'', ''attach''}"
    by auto
  then show ?thesis
  proof cases
    case start
    with assms show ?thesis
      by (auto simp: dispatch_def Let_def split: prod.splits dest: wf_start [where m = "manager d"])
         (metis snd_conv wf_start)
  next
    case stop
    with assms show ?thesis by (auto simp: dispatch_def wf_stop)
  next
    case list
    with assms show ?thesis by (auto simp: dispatch_def)
  next
    case logs
    with assms show ?thesis by (auto simp: dispatch_def split: sum.splits)
  next
    case attach
    with assms show ?thesis
      using manager_foldl_write [of "\<lambda>_. s" LogLine d]
      by (auto simp: dispatch_def Let_def wf_install split: option.splits)
  next
    case other
    with assms show ?thesis by (auto simp: dispatch_def)
  qed
qed

lemma wf_handle_parsed:
  "wf_manager (manager d) \<Longrightarrow> wf_manager (manager (handle_parsed d s p now born))"
  by (cases p) (auto simp: handle_parsed_def split: sum.splits dest: wf_dispatch [rotated])

lemma wf_step: "wf_manager (manager d) \<Longrightarrow> wf_manager (manager (step d ev))"
proof (cases ev)
  case (Chunk h chunk isErr ts)
  assume w: "wf_manager (manager d)"
  obtain fired m' where hw: "handler_write (manager d) h chunk isErr ts = (fired, m')"
    by (cases "handler_write (manager d) h chunk isErr ts")
  then have "wf_manager m'" using wf_handler_write [OF w, of h chunk isErr ts] by simp
  then show ?thesis
    using Chunk hw
      manager_foldl_write [of "\<lambda>x. x" "\<lambda>_. LogLine \<lparr>timestamp = ts, message = chunk, isError = isErr\<rparr>"
        "d\<lparr>manager := m'\<rparr>" fired]
    by simp
qed (auto simp: wf_handle_parsed wf_child_exit)

lemma wf_run_from: "wf_manager (manager d) \<Longrightarrow> wf_manager (manager (run d evs))"
  unfolding run_def by (induction evs arbitrary: d) (simp_all add: wf_step)

lemma wf_run: "wf_manager (manager (run daemon0 evs))"
  by (rule wf_run_from) (simp add: daemon0_def wf_constructor)

section \<open>Requests\<close>

lemma length_conns_socket_write [simp]: "length (conns (socket_write d s f)) = length (conns d)"
  by (simp add: socket_write_def)

lemma length_conns_set_buffer [simp]: "length (conns (set_buffer d s b)) = length (conns d)"
  by (simp add: set_buffer_def)

lemma conn_socket_write:
  "s < length (conns d) \<Longrightarrow>
   conns (socket_write d s f) ! s = (conns d ! s)\<lparr>written := written (conns d ! s) @ [f]\<rparr>"
  by (simp add: socket_write_def)

lemma conn_set_buffer:
  "s < length (conns d) \<Longrightarrow> conns (set_buffer d s b) ! s = (conns d ! s)\<lparr>buffer := b\<rparr>"
  by (simp add: set_buffer_def)

lemma conns_manager_update [simp]: "conns (d\<lparr>manager := m\<rparr>) = conns d"
  by simp

lemma stop_unknown: "map_of (processes m) i = None \<Longrightarrow> stop m i = m"
  by (simp add: stop_def)

lemma stop_known:
  assumes "map_of (processes m) i = Some h" and "h < length (config_processes m)"
  shows "processes (stop m i) = AList.delete i (processes m)"
    and "map_of (processes (stop m i)) i = None"
    and "killed (process (config_processes (stop m i) ! h))"
    and "length (config_processes (stop m i)) = length (config_processes m)"
  using assms by (simp_all add: stop_def Let_def AList.delete_conv')

lemma wf_ref:
  "wf_manager m \<Longrightarrow> map_of (processes m) i = Some h \<Longrightarrow>
   h < length (config_processes m) \<and> proc_id (config_processes m ! h) = i"
  unfolding wf_manager_def by (auto dest: map_of_SomeD)

text \<open>
  C6. A stop request on an open connection is always answered by the one frame
  \<open>Stopped\<close>, never by an error, and runs \<open>stop\<close>: for an id that is not registered
  the manager is unchanged; for a registered id the entry is deleted from the
  registry and the child of the record it referred to has been killed.
\<close>

theorem stop_request_acknowledged:
  assumes "msg_type msg = ''stop''" and "s < length (conns d)" and "wf_manager (manager d)"
  shows "written (conns (handle_parsed d s (JObject msg) now born) ! s) =
           written (conns d ! s) @ [Stopped]
       \<and> ended (conns (handle_parsed d s (JObject msg) now born) ! s) = ended (conns d ! s)
       \<and> manager (handle_parsed d s (JObject msg) now born) =
           stop (manager d) (msg_processId msg)
       \<and> (case map_of (processes (manager d)) (msg_processId msg) of
            None \<Rightarrow> stop (manager d) (msg_processId msg) = manager d
          | Some h \<Rightarrow>
              processes (stop (manager d) (msg_processId msg)) =
                AList.delete (msg_processId msg) (processes (manager d))
              \<and> map_of (processes (stop (manager d) (msg_processId msg))) (msg_processId msg) = None
              \<and> killed (process (config_processes (stop (manager d) (msg_processId msg)) ! h)))"
proof -
  have d: "handle_parsed d s (JObject msg) now born =
      socket_write ((set_buffer d s [])\<lparr>manager := stop (manager d) (msg_processId msg)\<rparr>) s Stopped"
    using assms(1) by (simp add: handle_parsed_def dispatch_def)
  have 1: "written (conns (handle_parsed d s (JObject msg) now born) ! s) =
           written (conns d ! s) @ [Stopped]"
    and 2: "ended (conns (handle_parsed d s (JObject msg) now born) ! s) = ended (conns d ! s)"
    using assms(2) by (simp_all add: d conn_socket_write conn_set_buffer)
  have 3: "manager (handle_parsed d s (JObject msg) now born) = stop (manager d) (msg_processId msg)"
    by (simp add: d)
  have 4: "case map_of (processes (manager d)) (msg_processId msg) of
            None \<Rightarrow> stop (manager d) (msg_processId msg) = manager d
          | Some h \<Rightarrow>
              processes (stop (manager d) (msg_processId msg)) =
                AList.delete (msg_processId msg) (processes (manager d))
              \<and> map_of (processes (stop (manager d) (msg_processId msg))) (msg_processId msg) = None
              \<and> killed (process (config_processes (stop (manager d) (msg_processId msg)) ! h))"
  proof (cases "map_of (processes (manager d)) (msg_processId msg)")
    case None
    then show ?thesis by (simp add: stop_unknown)
  next
    case (Some h)
    then have "h < length (config_processes (manager d))"
      using wf_ref [OF assms(3)] by blast
    with Some show ?thesis
      using stop_known [of "manager d" "msg_processId msg" h] by simp
  qed
  from 1 2 3 4 show ?thesis by blast
qed

theorem stop_request_acknowledged_witness:
  "written (conns (handle_parsed
       \<lparr>manager = snd (start constructor ''a.js'' \<lparr>restart = None, maxLogLines = None\<rparr> 5 5),
        conns = [\<lparr>buffer = [], written = [OkId ''5''], ended = False\<rparr>]\<rparr>
       0 (JObject \<lparr>msg_type = ''stop'', msg_script = [], msg_options = None,
            msg_processId = ''5'', msg_startIndex = None, msg_count = None\<rparr>) 9 9) ! 0) =
     [OkId ''5'', Stopped]
   \<and> processes (manager (handle_parsed
       \<lparr>manager = snd (start constructor ''a.js'' \<lparr>restart = None, maxLogLines = None\<rparr> 5 5),
        conns = [\<lparr>buffer = [], written = [OkId ''5''], ended = False\<rparr>]\<rparr>
       0 (JObject \<lparr>msg_type = ''stop'', msg_script = [], msg_options = None,
            msg_processId = ''5'', msg_startIndex = None, msg_count = None\<rparr>) 9 9)) = []
   \<and> killed (process (config_processes (manager (handle_parsed
       \<lparr>manager = snd (start constructor ''a.js'' \<lparr>restart = None, maxLogLines = None\<rparr> 5 5),
        conns = [\<lparr>buffer = [], written = [OkId ''5''], ended = False\<rparr>]\<rparr>
       0 (JObject \<lparr>msg_type = ''stop'', msg_script = [], msg_options = None,
            msg_processId = ''5'', msg_startIndex = None, msg_count = None\<rparr>) 9 9)) ! 0))
   \<and> written (conns (handle_parsed
       \<lparr>manager = snd (start constructor ''a.js'' \<lparr>restart = None, maxLogLines = None\<rparr> 5 5),
        conns = [\<lparr>buffer = [], written = [OkId ''5''], ended = False\<rparr>]\<rparr>
       0 (JObject \<lparr>msg_type = ''stop'', msg_script = [], msg_options = None,
            msg_processId = ''77'', msg_startIndex = None, msg_count = None\<rparr>) 9 9) ! 0) =
     [OkId ''5'', Stopped]
   \<and> manager (handle_parsed
       \<lparr>manager = snd (start constructor ''a.js'' \<lparr>restart = None, maxLogLines = None\<rparr> 5 5),
        conns = [\<lparr>buffer = [], written = [OkId ''5''], ended = False\<rparr>]\<rparr>
       0 (JObject \<lparr>msg_type = ''stop'', msg_script = [], msg_options = None,
            msg_processId = ''77'', msg_startIndex = None, msg_count = None\<rparr>) 9 9) =
     snd (start constructor ''a.js'' \<lparr>restart = None, maxLogLines = None\<rparr> 5 5)"
  using
    stop_request_acknowledged [of "\<lparr>msg_type = ''stop'', msg_script = [], msg_options = None,
            msg_processId = ''5'', msg_startIndex = None, msg_count = None\<rparr>" 0
       "\<lparr>manager = snd (start constructor ''a.js'' \<lparr>restart = None, maxLogLines = None\<rparr> 5 5),
        conns = [\<lparr>buffer = [], written = [OkId ''5''], ended = False\<rparr>]\<rparr>" 9 9]
    stop_request_acknowledged [of "\<lparr>msg_type = ''stop'', msg_script = [], msg_options = None,
            msg_processId = ''77'', msg_startIndex = None, msg_count = None\<rparr>" 0
       "\<lparr>manager = snd (start constructor ''a.js'' \<lparr>restart = None, maxLogLines = None\<rparr> 5 5),
        conns = [\<lparr>buffer = [], written = [OkId ''5''], ended = False\<rparr>]\<rparr>" 9 9]
  by (simp add: start_snd constructor_def new_processInfo_def toString.simps digit_char_def
      wf_manager_def stop_def)

lemma getLogs_default:
  "map_of (processes m) i = Some h \<Longrightarrow>
   getLogs m i None None = Inr (take 200 (items (logs (config_processes m ! h))))"
  using js_slice_window [of 0 200 "items (logs (config_processes m ! h))"]
  by (simp add: getLogs_def Let_def)

text \<open>
  C9, as amended. A logs request with a registered id is answered by the first
  200 retained entries (all of them when there are fewer), that is \<open>getLogs\<close> with
  its defaults; the request's \<open>startIndex\<close> and \<open>count\<close> play no part.
\<close>

theorem wire_logs_default_window:
  assumes "msg_type msg = ''logs''"
    and "map_of (processes (manager d)) (msg_processId msg) = Some h"
    and "s < length (conns d)"
  shows "written (conns (handle_parsed d s (JObject msg) now born) ! s) =
           written (conns d ! s) @
             [OkLogs (take 200 (items (logs (config_processes (manager d) ! h))))]
       \<and> manager (handle_parsed d s (JObject msg) now born) = manager d"
proof -
  have "handle_parsed d s (JObject msg) now born =
      socket_write (set_buffer d s []) s
        (OkLogs (take 200 (items (logs (config_processes (manager d) ! h)))))"
    using assms(1) getLogs_default [OF assms(2)]
    by (simp add: handle_parsed_def dispatch_def)
  then show ?thesis
    using assms(3) by (simp add: conn_socket_write conn_set_buffer)
qed

theorem wire_logs_default_window_witness:
  "written (conns (handle_parsed
       \<lparr>manager = snd (handler_write (snd (handler_write (snd (handler_write
          (snd (start constructor ''a.js'' \<lparr>restart = None, maxLogLines = None\<rparr> 5 5))
          0 ''a'' False 6)) 0 ''b'' False 7)) 0 ''c'' True 8),
        conns = [\<lparr>buffer = [], written = [], ended = False\<rparr>]\<rparr>
       0 (JObject \<lparr>msg_type = ''logs'', msg_script = [], msg_options = None,
            msg_processId = ''5'', msg_startIndex = None, msg_count = None\<rparr>) 9 9) ! 0) =
     [OkLogs [\<lparr>timestamp = 6, message = ''a'', isError = False\<rparr>,
              \<lparr>timestamp = 7, message = ''b'', isError = False\<rparr>,
              \<lparr>timestamp = 8, message = ''c'', isError = True\<rparr>]]"
  using wire_logs_default_window [of "\<lparr>msg_type = ''logs'', msg_script = [], msg_options = None,
            msg_processId = ''5'', msg_startIndex = None, msg_count = None\<rparr>"
       "\<lparr>manager = snd (handler_write (snd (handler_write (snd (handler_write
          (snd (start constructor ''a.js'' \<lparr>restart = None, maxLogLines = None\<rparr> 5 5))
          0 ''a'' False 6)) 0 ''b'' False 7)) 0 ''c'' True 8),
        conns = [\<lparr>buffer = [], written = [], ended = False\<rparr>]\<rparr>" 0 0 9 9]
  by (simp add: start_def new_processInfo_def constructor_def toString.simps digit_char_def
      handler_write_def addLog_def push_def js_or_def Let_def)

text \<open>
  C9 as stated fails: a logs request with \<open>startIndex = 1\<close> and \<open>count = 1\<close> on a
  buffer of three entries is answered with all three, while the slice those
  parameters select is the second entry alone.
\<close>

theorem wire_logs_ignores_window_counterexample:
  "written (conns (handle_parsed
       \<lparr>manager = snd (handler_write (snd (handler_write (snd (handler_write
          (snd (start constructor ''a.js'' \<lparr>restart = None, maxLogLines = None\<rparr> 5 5))
          0 ''a'' False 6)) 0 ''b'' False 7)) 0 ''c'' True 8),
        conns = [\<lparr>buffer = [], written = [], ended = False\<rparr>]\<rparr>
       0 (JObject \<lparr>msg_type = ''logs'', msg_script = [], msg_options = None,
            msg_processId = ''5'', msg_startIndex = Some 1, msg_count = Some 1\<rparr>) 9 9) ! 0) =
     [OkLogs [\<lparr>timestamp = 6, message = ''a'', isError = False\<rparr>,
              \<lparr>timestamp = 7, message = ''b'', isError = False\<rparr>,
              \<lparr>timestamp = 8, message = ''c'', isError = True\<rparr>]]
   \<and> getLogs (snd (handler_write (snd (handler_write (snd (handler_write
          (snd (start constructor ''a.js'' \<lparr>restart = None, maxLogLines = None\<rparr> 5 5))
          0 ''a'' False 6)) 0 ''b'' False 7)) 0 ''c'' True 8)) ''5'' (Some 1) (Some 1) =
     Inr [\<lparr>timestamp = 7, message = ''b'', isError = False\<rparr>]"
  by (simp add: handle_parsed_def dispatch_def getLogs_def js_slice_def js_index_def
      set_buffer_def socket_write_def
      start_def new_processInfo_def constructor_def toString.simps digit_char_def
      handler_write_def addLog_def push_def js_or_def Let_def)

section \<open>Framing, and the listing\<close>

lemma set_buffer_twice:
  "s < length (conns d) \<Longrightarrow> set_buffer (set_buffer d s a) s b = set_buffer d s b"
  by (simp add: set_buffer_def)

lemma fault_explicit:
  "s < length (conns d) \<Longrightarrow>
   fault (set_buffer d s b) s =
     d\<lparr>conns := (conns d)[s :=
          \<lparr>buffer = [], written = written (conns d ! s) @ [Err ''Invalid message format''],
           ended = ended (conns d ! s)\<rparr>]\<rparr>"
  by (cases "conns d ! s") (simp add: fault_def set_buffer_def socket_write_def)

lemma endsWith_append: "endsWith b t \<Longrightarrow> endsWith (a @ b) t"
  by (auto simp: endsWith_def)

lemma handle_parsed_fault:
  assumes "s < length (conns d)"
    and "case p of SyntaxError \<Rightarrow> True | JNull \<Rightarrow> True
         | JObject msg \<Rightarrow> isl (dispatch (set_buffer d s []) s msg now born)"
  shows "handle_parsed (set_buffer d s b) s p now born =
     d\<lparr>conns := (conns d)[s :=
          \<lparr>buffer = [], written = written (conns d ! s) @ [Err ''Invalid message format''],
           ended = ended (conns d ! s)\<rparr>]\<rparr>"
proof (cases p)
  case SyntaxError
  then show ?thesis using assms(1) by (simp add: handle_parsed_def fault_explicit)
next
  case JNull
  then show ?thesis using assms(1)
    by (simp add: handle_parsed_def set_buffer_twice fault_explicit)
next
  case (JObject msg)
  then obtain e where "dispatch (set_buffer d s []) s msg now born = Inl e"
    using assms(2) by (cases "dispatch (set_buffer d s []) s msg now born") simp_all
  with JObject show ?thesis using assms(1)
    by (simp add: handle_parsed_def set_buffer_twice fault_explicit)
qed

text \<open>
  C8. On an open connection \<open>s\<close>, with \<open>P\<close> for \<^verbatim>\<open>JSON.parse\<close>: (1) as long as the
  accumulated input does not end in a newline it is only stored, nothing is
  parsed or written; (2) when it does and the parse throws, or yields null, or
  the dispatch throws, exactly one frame \<open>Err ''Invalid message format''\<close> is
  written, the buffer is emptied, and nothing else changes: the manager, the
  other connections, and the connection's \<open>ended\<close> flag; (3) in particular two
  newline-terminated documents that arrive together on an empty buffer are
  handed to the parser as one text, and when the parser rejects it they get
  that single error frame; (4) on an empty buffer, as it is after a fault, the
  next complete chunk is parsed and handled on its own.
\<close>

theorem on_data_framing:
  assumes "s < length (conns d)"
  shows "(\<not> endsWith (buffer (conns d ! s) @ chunk) newline \<longrightarrow>
            on_data P d s chunk now born = set_buffer d s (buffer (conns d ! s) @ chunk))
       \<and> (endsWith (buffer (conns d ! s) @ chunk) newline \<and>
          (case P (buffer (conns d ! s) @ chunk) of SyntaxError \<Rightarrow> True | JNull \<Rightarrow> True
           | JObject msg \<Rightarrow> isl (dispatch (set_buffer d s []) s msg now born)) \<longrightarrow>
            on_data P d s chunk now born =
              d\<lparr>conns := (conns d)[s :=
                \<lparr>buffer = [],
                 written = written (conns d ! s) @ [Err ''Invalid message format''],
                 ended = ended (conns d ! s)\<rparr>]\<rparr>)
       \<and> (buffer (conns d ! s) = [] \<and> endsWith doc1 newline \<and> endsWith doc2 newline \<and>
          P (doc1 @ doc2) = SyntaxError \<longrightarrow>
            on_data P d s (doc1 @ doc2) now born =
              d\<lparr>conns := (conns d)[s :=
                \<lparr>buffer = [],
                 written = written (conns d ! s) @ [Err ''Invalid message format''],
                 ended = ended (conns d ! s)\<rparr>]\<rparr>)
       \<and> (buffer (conns d ! s) = [] \<and> endsWith chunk newline \<longrightarrow>
            on_data P d s chunk now born = handle_parsed (set_buffer d s chunk) s (P chunk) now born)"
proof (intro conjI impI)
  assume "\<not> endsWith (buffer (conns d ! s) @ chunk) newline"
  then show "on_data P d s chunk now born = set_buffer d s (buffer (conns d ! s) @ chunk)"
    by (simp add: on_data_def Let_def)
next
  assume a: "endsWith (buffer (conns d ! s) @ chunk) newline \<and>
          (case P (buffer (conns d ! s) @ chunk) of SyntaxError \<Rightarrow> True | JNull \<Rightarrow> True
           | JObject msg \<Rightarrow> isl (dispatch (set_buffer d s []) s msg now born))"
  then show "on_data P d s chunk now born =
              d\<lparr>conns := (conns d)[s :=
                \<lparr>buffer = [],
                 written = written (conns d ! s) @ [Err ''Invalid message format''],
                 ended = ended (conns d ! s)\<rparr>]\<rparr>"
    using handle_parsed_fault [OF assms, where p = "P (buffer (conns d ! s) @ chunk)"
        and now = now and born = born and b = "buffer (conns d ! s) @ chunk"]
    by (simp add: on_data_def Let_def)
next
  assume a: "buffer (conns d ! s) = [] \<and> endsWith doc1 newline \<and> endsWith doc2 newline \<and>
          P (doc1 @ doc2) = SyntaxError"
  then have "endsWith (doc1 @ doc2) newline" by (simp add: endsWith_append)
  with a show "on_data P d s (doc1 @ doc2) now born =
              d\<lparr>conns := (conns d)[s :=
                \<lparr>buffer = [],
                 written = written (conns d ! s) @ [Err ''Invalid message format''],
                 ended = ended (conns d ! s)\<rparr>]\<rparr>"
    using handle_parsed_fault [OF assms, where p = SyntaxError
        and now = now and born = born and b = "doc1 @ doc2"]
    by (simp add: on_data_def Let_def)
next
  assume "buffer (conns d ! s) = [] \<and> endsWith chunk newline"
  then show "on_data P d s chunk now born =
      handle_parsed (set_buffer d s chunk) s (P chunk) now born"
    by (simp add: on_data_def Let_def)
qed

theorem on_data_framing_witness:
  "on_data (\<lambda>b. if b = ''{}'' @ newline
                 then JObject \<lparr>msg_type = ''undefined'', msg_script = [], msg_options = None,
                        msg_processId = [], msg_startIndex = None, msg_count = None\<rparr>
                 else SyntaxError)
      \<lparr>manager = constructor, conns = [\<lparr>buffer = [], written = [], ended = False\<rparr>]\<rparr>
      0 (''{}'' @ newline @ ''{}'' @ newline) 1 1 =
     \<lparr>manager = constructor,
      conns = [\<lparr>buffer = [], written = [Err ''Invalid message format''], ended = False\<rparr>]\<rparr>
   \<and> on_data (\<lambda>b. if b = ''{}'' @ newline
                 then JObject \<lparr>msg_type = ''undefined'', msg_script = [], msg_options = None,
                        msg_processId = [], msg_startIndex = None, msg_count = None\<rparr>
                 else SyntaxError)
      \<lparr>manager = constructor, conns = [\<lparr>buffer = [], written = [], ended = False\<rparr>]\<rparr>
      0 ''{}'' 1 1 =
     \<lparr>manager = constructor, conns = [\<lparr>buffer = ''{}'', written = [], ended = False\<rparr>]\<rparr>
   \<and> on_data (\<lambda>b. JObject \<lparr>msg_type = ''logs'', msg_script = [], msg_options = None,
                        msg_processId = ''77'', msg_startIndex = None, msg_count = None\<rparr>)
      \<lparr>manager = constructor, conns = [\<lparr>buffer = [], written = [], ended = False\<rparr>]\<rparr>
      0 (''x'' @ newline) 1 1 =
     \<lparr>manager = constructor,
      conns = [\<lparr>buffer = [], written = [Err ''Invalid message format''], ended = False\<rparr>]\<rparr>"
  using
    on_data_framing [where s = 0
      and d = "\<lparr>manager = constructor, conns = [\<lparr>buffer = [], written = [], ended = False\<rparr>]\<rparr>"
      and P = "\<lambda>b. if b = ''{}'' @ newline
                 then JObject \<lparr>msg_type = ''undefined'', msg_script = [], msg_options = None,
                        msg_processId = [], msg_startIndex = None, msg_count = None\<rparr>
                 else SyntaxError"
      and ?doc1.0 = "''{}'' @ newline" and ?doc2.0 = "''{}'' @ newline" and chunk = "''{}''"
      and now = 1 and born = 1]
    on_data_framing [where s = 0
      and d = "\<lparr>manager = constructor, conns = [\<lparr>buffer = [], written = [], ended = False\<rparr>]\<rparr>"
      and P = "\<lambda>b. JObject \<lparr>msg_type = ''logs'', msg_script = [], msg_options = None,
                        msg_processId = ''77'', msg_startIndex = None, msg_count = None\<rparr>"
      and chunk = "''x'' @ newline" and now = 1 and born = 1]
  by (simp add: endsWith_def newline_def constructor_def set_buffer_def dispatch_def getLogs_def)

lemma wf_ref_nth:
  assumes "wf_manager m" and "j < length (processes m)"
  shows "snd (processes m ! j) < length (config_processes m)"
    and "proc_id (config_processes m ! snd (processes m ! j)) = fst (processes m ! j)"
  using assms(1) nth_mem [OF assms(2)] unfolding wf_manager_def
  by (auto simp: case_prod_beta)

lemma list_nth:
  "j < length (processes m) \<Longrightarrow>
   list m now ! j =
     \<lparr>l_id = proc_id (config_processes m ! snd (processes m ! j)),
      l_script = script (config_processes m ! snd (processes m ! j)),
      uptime = int now - int (startTime (config_processes m ! snd (processes m ! j))),
      status = (if exitCode (process (config_processes m ! snd (processes m ! j))) = None
                then ''running'' else ''stopped'')\<rparr>"
  by (simp add: list_def Let_def split: prod.splits)

lemma child_exit_no_restart:
  "\<not> (exited_value tm \<noteq> 0 \<and> restart (spawn_options (config_processes m ! h)) = Some True) \<Longrightarrow>
   child_exit m h tm t b = child_terminated m h tm"
  by (cases "h < length (config_processes m)")
     (auto simp: child_exit_def exited_def Let_def child_terminated_fields)

text \<open>
  The listing after the end of child \<open>h\<close> when no restart is due: the entries of
  record \<open>h\<close> show \<open>stopped\<close> if the runtime recorded an exit code, and still
  \<open>running\<close> if the child was ended by a signal; nothing else differs.
\<close>

lemma list_child_exit:
  assumes "wf_manager m"
    and "\<not> (exited_value tm \<noteq> 0 \<and> restart (spawn_options (config_processes m ! h)) = Some True)"
    and "j < length (processes m)"
  shows "list (child_exit m h tm t b) now ! j =
          (if snd (processes m ! j) = h
           then (list m now ! j)
                  \<lparr>status := (if exitCode_value tm = None then ''running'' else ''stopped'')\<rparr>
           else list m now ! j)"
proof -
  have r: "snd (processes m ! j) < length (config_processes m)"
    using wf_ref_nth(1) [OF assms(1,3)] .
  have ce: "child_exit m h tm t b = child_terminated m h tm"
    using assms(2) by (rule child_exit_no_restart)
  show ?thesis
  proof (cases "snd (processes m ! j) = h")
    case True
    then show ?thesis using r assms(3)
      by (simp add: ce list_nth child_terminated_def)
  next
    case False
    then show ?thesis using r assms(3)
      by (simp add: ce list_nth child_terminated_def)
  qed
qed

text \<open>
  C7, as amended. In a well-formed registry \<open>list\<close> has one entry per registry
  entry, in registry order, carrying the key as id, the record's script, the
  uptime \<open>now - startTime\<close>, and the status \<open>running\<close> while the child's exit code
  is unset, \<open>stopped\<close> afterwards. When child \<open>h\<close> exits with an exit code and no
  restart is due, the registry is unchanged and the listing differs only in
  that the entries of record \<open>h\<close> have status \<open>stopped\<close>, whatever the exit code.
\<close>

theorem list_snapshot:
  assumes "wf_manager m"
  shows "map l_id (list m now) = map fst (processes m)
       \<and> (\<forall>j < length (processes m).
            list m now ! j =
              \<lparr>l_id = fst (processes m ! j),
               l_script = script (config_processes m ! snd (processes m ! j)),
               uptime = int now - int (startTime (config_processes m ! snd (processes m ! j))),
               status = (if exitCode (process (config_processes m ! snd (processes m ! j))) = None
                         then ''running'' else ''stopped'')\<rparr>)
       \<and> (\<not> (code \<noteq> 0 \<and> restart (spawn_options (config_processes m ! h)) = Some True) \<longrightarrow>
            processes (child_exit m h (ExitCode code) t b) = processes m
            \<and> (\<forall>j < length (processes m).
                 list (child_exit m h (ExitCode code) t b) now ! j =
                   (if snd (processes m ! j) = h then (list m now ! j)\<lparr>status := ''stopped''\<rparr>
                    else list m now ! j)))"
proof (intro conjI impI allI)
  show "map l_id (list m now) = map fst (processes m)"
    using assms by (auto simp: list_def wf_manager_def Let_def)
next
  fix j assume "j < length (processes m)"
  then show "list m now ! j =
              \<lparr>l_id = fst (processes m ! j),
               l_script = script (config_processes m ! snd (processes m ! j)),
               uptime = int now - int (startTime (config_processes m ! snd (processes m ! j))),
               status = (if exitCode (process (config_processes m ! snd (processes m ! j))) = None
                         then ''running'' else ''stopped'')\<rparr>"
    using wf_ref_nth(2) [OF assms] by (simp add: list_nth)
next
  assume "\<not> (code \<noteq> 0 \<and> restart (spawn_options (config_processes m ! h)) = Some True)"
  then have "child_exit m h (ExitCode code) t b = child_terminated m h (ExitCode code)"
    by (intro child_exit_no_restart) (simp add: exited_value_def)
  then show "processes (child_exit m h (ExitCode code) t b) = processes m"
    by (simp add: child_terminated_fields)
next
  fix j
  assume nr: "\<not> (code \<noteq> 0 \<and> restart (spawn_options (config_processes m ! h)) = Some True)"
    and j: "j < length (processes m)"
  have "\<not> (exited_value (ExitCode code) \<noteq> 0 \<and>
            restart (spawn_options (config_processes m ! h)) = Some True)"
    using nr by (simp add: exited_value_def)
  from list_child_exit [OF assms this j, of t b now]
  show "list (child_exit m h (ExitCode code) t b) now ! j =
          (if snd (processes m ! j) = h then (list m now ! j)\<lparr>status := ''stopped''\<rparr>
           else list m now ! j)"
    by (simp add: exitCode_value_def)
qed

theorem list_snapshot_witness:
  "list (child_exit (snd (start constructor ''a.js'' \<lparr>restart = None, maxLogLines = None\<rparr> 5 6))
      0 (ExitCode 7) 8 8) 12 ! 0 =
     \<lparr>l_id = ''5'', l_script = ''a.js'', uptime = 6, status = ''stopped''\<rparr>
   \<and> list (snd (start constructor ''a.js'' \<lparr>restart = None, maxLogLines = None\<rparr> 5 6)) 12 ! 0 =
     \<lparr>l_id = ''5'', l_script = ''a.js'', uptime = 6, status = ''running''\<rparr>"
  using list_snapshot [where m = "snd (start constructor ''a.js'' \<lparr>restart = None, maxLogLines = None\<rparr> 5 6)"
      and code = 7 and h = 0 and now = 12 and t = 8 and b = 8]
  by (simp add: start_snd new_processInfo_def constructor_def toString.simps digit_char_def
      wf_manager_def)

text \<open>
  C7 as stated fails in its last part: after an exit with code 7 the status is
  not the exit code, and the listing is the same as after an exit with code 0.
\<close>

theorem list_status_not_exit_code_counterexample:
  "status (list (child_exit (snd (start constructor ''a.js''
      \<lparr>restart = None, maxLogLines = None\<rparr> 5 6)) 0 (ExitCode 7) 8 8) 12 ! 0) \<noteq> toString 7
   \<and> list (child_exit (snd (start constructor ''a.js''
      \<lparr>restart = None, maxLogLines = None\<rparr> 5 6)) 0 (ExitCode 7) 8 8) 12 =
     list (child_exit (snd (start constructor ''a.js''
      \<lparr>restart = None, maxLogLines = None\<rparr> 5 6)) 0 (ExitCode 0) 8 8) 12"
  by (simp add: list_def child_exit_def exited_def child_terminated_def exited_value_def
      exitCode_value_def start_def new_processInfo_def constructor_def
      toString.simps digit_char_def Let_def)

section \<open>Attach\<close>

text \<open>
  What does hold of attach: the request replays the retained window, in order, on
  the attaching connection and patches the push of the array the record holds at
  that moment; each later chunk is written once to every connection whose patch
  that array carries; a trim leaves the record with an array that carries none.
\<close>

lemma written_foldl_same:
  "s < length (conns d) \<Longrightarrow>
   written (conns (foldl (\<lambda>acc x. socket_write acc s (fr x)) d xs) ! s) =
     written (conns d ! s) @ map fr xs"
  by (induction xs arbitrary: d) (simp_all add: conn_socket_write)

lemma conn_socket_write_other:
  "x \<noteq> s \<Longrightarrow> conns (socket_write d x f) ! s = conns d ! s"
  by (simp add: socket_write_def)

lemma written_foldl_fanout:
  "s < length (conns d) \<Longrightarrow>
   written (conns (foldl (\<lambda>acc x. socket_write acc x f) d xs) ! s) =
     written (conns d ! s) @ map (\<lambda>_. f) (filter (\<lambda>x. x = s) xs)"
proof (induction xs arbitrary: d)
  case Nil
  then show ?case by simp
next
  case (Cons x xs)
  show ?case
  proof (cases "x = s")
    case True
    with Cons show ?thesis by (simp add: conn_socket_write)
  next
    case False
    with Cons show ?thesis by (simp add: conn_socket_write_other)
  qed
qed

lemma attach_replays_window:
  assumes "msg_type msg = ''attach''"
    and "map_of (processes (manager d)) (msg_processId msg) = Some h"
    and "s < length (conns d)"
    and "h < length (config_processes (manager d))"
  shows "written (conns (handle_parsed d s (JObject msg) now born) ! s) =
           written (conns d ! s) @ map LogLine (items (logs (config_processes (manager d) ! h)))
       \<and> logs (config_processes (manager (handle_parsed d s (JObject msg) now born)) ! h) =
           (logs (config_processes (manager d) ! h))
             \<lparr>push_taps := s # push_taps (logs (config_processes (manager d) ! h))\<rparr>"
proof -
  let ?d0 = "set_buffer d s []"
  let ?d1 = "foldl (\<lambda>acc log. socket_write acc s (LogLine log)) ?d0
               (items (logs (config_processes (manager d) ! h)))"
  have m1: "manager ?d1 = manager d"
    using manager_foldl_write [of "\<lambda>_. s" LogLine ?d0] by simp
  have hp: "handle_parsed d s (JObject msg) now born =
      ?d1\<lparr>manager := install_push_proxy (manager d) h s\<rparr>"
    using assms(1,2) m1
    by (simp add: handle_parsed_def dispatch_def getProcess_def Let_def)
  have "written (conns ?d1 ! s) =
      written (conns ?d0 ! s) @ map LogLine (items (logs (config_processes (manager d) ! h)))"
    using assms(3) by (simp add: written_foldl_same)
  then have w: "written (conns (handle_parsed d s (JObject msg) now born) ! s) =
           written (conns d ! s) @ map LogLine (items (logs (config_processes (manager d) ! h)))"
    using assms(3) by (simp add: hp conn_set_buffer)
  have "logs (config_processes (install_push_proxy (manager d) h s) ! h) =
           (logs (config_processes (manager d) ! h))
             \<lparr>push_taps := s # push_taps (logs (config_processes (manager d) ! h))\<rparr>"
    using assms(4) by (simp add: install_push_proxy_def Let_def)
  with w show ?thesis by (simp add: hp)
qed

lemma chunk_fanout:
  assumes "h < length (config_processes (manager d))" and "s < length (conns d)"
  shows "written (conns (step d (Chunk h chunk isErr ts)) ! s) =
           written (conns d ! s) @
             map (\<lambda>_. LogLine \<lparr>timestamp = ts, message = chunk, isError = isErr\<rparr>)
               (filter (\<lambda>x. x = s) (push_taps (logs (config_processes (manager d) ! h))))"
proof -
  obtain fired p' where al: "addLog (config_processes (manager d) ! h) chunk isErr ts = (fired, p')"
    by (cases "addLog (config_processes (manager d) ! h) chunk isErr ts")
  then have f: "fired = push_taps (logs (config_processes (manager d) ! h))"
    by (auto simp: addLog_def push_def Let_def split: if_splits)
  have hw: "handler_write (manager d) h chunk isErr ts =
      (fired, (manager d)\<lparr>config_processes := (config_processes (manager d))[h := p']\<rparr>)"
    using assms(1) al by (simp add: handler_write_def)
  show ?thesis
    using assms(2) written_foldl_fanout
      [of s "d\<lparr>manager := (manager d)\<lparr>config_processes := (config_processes (manager d))[h := p']\<rparr>\<rparr>"
          "LogLine \<lparr>timestamp = ts, message = chunk, isError = isErr\<rparr>" fired]
    by (simp add: hw f)
qed

lemma addLog_taps:
  "push_taps (logs (snd (addLog p msg isErr ts))) =
     (if int (length (items (logs p))) + 1 > js_or (maxLogLines (options p)) 1000 then []
      else push_taps (logs p))"
  by (simp add: addLog_def push_def Let_def)

text \<open>
  C2 fails on the code. A process with \<open>maxLogLines = 1\<close> has logged \<open>a\<close>; a second
  connection attaches and gets \<open>a\<close>; the child then writes \<open>b\<close> and \<open>c\<close>. The
  attached connection receives \<open>b\<close> but never \<open>c\<close>, although \<open>c\<close> is appended to the
  buffer: the trim after \<open>b\<close> replaced the array that carried the patched push.
\<close>

theorem attach_stream_lost_after_trim:
  "written (conns (run daemon0
      [Connection,
       Request 0 (JObject \<lparr>msg_type = ''start'', msg_script = ''a.js'',
          msg_options = Some \<lparr>restart = None, maxLogLines = Some 1\<rparr>, msg_processId = [],
          msg_startIndex = None, msg_count = None\<rparr>) 5 5,
       Chunk 0 ''a'' False 6,
       Connection,
       Request 1 (JObject \<lparr>msg_type = ''attach'', msg_script = [],
          msg_options = None, msg_processId = ''5'',
          msg_startIndex = None, msg_count = None\<rparr>) 7 7,
       Chunk 0 ''b'' False 8,
       Chunk 0 ''c'' True 9]) ! 1) =
   [LogLine \<lparr>timestamp = 6, message = ''a'', isError = False\<rparr>,
    LogLine \<lparr>timestamp = 8, message = ''b'', isError = False\<rparr>]
   \<and> items (logs (config_processes (manager (run daemon0
      [Connection,
       Request 0 (JObject \<lparr>msg_type = ''start'', msg_script = ''a.js'',
          msg_options = Some \<lparr>restart = None, maxLogLines = Some 1\<rparr>, msg_processId = [],
          msg_startIndex = None, msg_count = None\<rparr>) 5 5,
       Chunk 0 ''a'' False 6,
       Connection,
       Request 1 (JObject \<lparr>msg_type = ''attach'', msg_script = [],
          msg_options = None, msg_processId = ''5'',
          msg_startIndex = None, msg_count = None\<rparr>) 7 7,
       Chunk 0 ''b'' False 8,
       Chunk 0 ''c'' True 9])) ! 0)) =
   [\<lparr>timestamp = 9, message = ''c'', isError = True\<rparr>]"
  by (simp add: run_def daemon0_def constructor_def handle_parsed_def dispatch_def start_def
      new_processInfo_def toString.simps digit_char_def set_buffer_def socket_write_def
      handler_write_def addLog_def push_def js_or_def js_slice_from_def js_slice_def js_index_def
      getProcess_def install_push_proxy_def Let_def)

end
